theory Spec2Isabelle
  imports Complex_Main "HOL-Library.Log_Nat"
begin

section \<open>The conduction notebook as functions of its inputs\<close>

text \<open>
  The notebook \<^verbatim>\<open>HeatTransferConduction\<close> is a script of three code cells over the
  module-level variables \<^verbatim>\<open>T1\<close>, \<^verbatim>\<open>T4\<close>, \<^verbatim>\<open>k\<close> and \<^verbatim>\<open>L\<close>:
  \<^verbatim>\<open>
  AR = []
  for i in range(0,len(k)):
      AR.append(L[i]/k[i])

  q = float(T1 - T4)/np.sum(AR)

  T2 = -q*AR[0] + T1
  T3 = q*AR[2] + T4
  T = [T1, T2, T3, T4]
  x = [0, L[0], L[0]+L[1], L[0]+L[1]+L[2]]
  \<close>
  The embedding takes the four variables as parameters and follows the cells in order;
  an exception ends the run, as it does when the cells are run in sequence.

  Numbers. A Python float is a binary64 value. Here a finite float is the real number it
  denotes, and every arithmetic operation of the script is its exact result passed through
  a rounding function \<open>rnd\<close>, a parameter of the model. With \<open>rnd = exact\<close> the script is
  read over the reals; with \<open>rnd = binary64\<close> it rounds to the nearest double. Overflow to
  an infinity is not modelled: the magnitudes are unbounded.
\<close>

datatype py_error = IndexError | ZeroDivisionError

text \<open>\<^verbatim>\<open>xs[i]\<close> for an index \<open>i \<ge> 0\<close>: out of range raises.\<close>

definition getitem :: "'a list \<Rightarrow> nat \<Rightarrow> py_error + 'a" where
  "getitem xs i = (if i < length xs then Inr (xs ! i) else Inl IndexError)"

text \<open>\<^verbatim>\<open>a / b\<close> on Python floats: a zero divisor raises.\<close>

definition truediv :: "(real \<Rightarrow> real) \<Rightarrow> real \<Rightarrow> real \<Rightarrow> py_error + real" where
  "truediv rnd a b = (if b = 0 then Inl ZeroDivisionError else Inr (rnd (a / b)))"

definition exact :: "real \<Rightarrow> real" where
  "exact v = v"

text \<open>
  Rounding to the nearest binary64 value, ties to the even significand: 53 significant
  bits, and below \<open>2 powi (- 1022)\<close> the fixed spacing \<open>2 powi (- 1074)\<close> of the
  subnormal range. \<open>floor_log2 v\<close> is the integer part of the binary logarithm of a
  positive \<open>v\<close>.
\<close>

definition floor_log2 :: "real \<Rightarrow> int" where
  "floor_log2 v =
     (if 1 \<le> v then int (floorlog 2 (nat \<lfloor>v\<rfloor>)) - 1
      else - int (floorlog 2 (nat (\<lceil>1 / v\<rceil> - 1))))"

definition round_half_even :: "real \<Rightarrow> int" where
  "round_half_even r =
     (let f = \<lfloor>r\<rfloor>; d = r - of_int f
      in if d < 1 / 2 then f else if 1 / 2 < d then f + 1 else if even f then f else f + 1)"

definition binary64 :: "real \<Rightarrow> real" where
  "binary64 v =
     (if v = 0 then 0
      else let e = max (floor_log2 \<bar>v\<bar> - 52) (- 1074)
           in sgn v * of_int (round_half_even (\<bar>v\<bar> / 2 powi e)) * 2 powi e)"

subsection \<open>Cell 2: the area-resistances\<close>

text \<open>
  The loop runs over \<^verbatim>\<open>range(0,len(k))\<close>. Each pass reads \<^verbatim>\<open>L[i]\<close>, then \<^verbatim>\<open>k[i]\<close>,
  divides and appends; the first exception ends the run.
\<close>

fun AR_loop :: "(real \<Rightarrow> real) \<Rightarrow> real list \<Rightarrow> real list \<Rightarrow> nat list \<Rightarrow> real list
    \<Rightarrow> py_error + real list" where
  "AR_loop rnd k L [] AR = Inr AR"
| "AR_loop rnd k L (i # is) AR =
     (case getitem L i of
        Inl e \<Rightarrow> Inl e
      | Inr l \<Rightarrow>
          (case getitem k i of
             Inl e \<Rightarrow> Inl e
           | Inr c \<Rightarrow>
               (case truediv rnd l c of
                  Inl e \<Rightarrow> Inl e
                | Inr r \<Rightarrow> AR_loop rnd k L is (AR @ [r]))))"

definition AR_cell :: "(real \<Rightarrow> real) \<Rightarrow> real list \<Rightarrow> real list \<Rightarrow> py_error + real list" where
  "AR_cell rnd k L = AR_loop rnd k L [0 ..< length k] []"

subsection \<open>Cell 3: the heat flux\<close>

text \<open>
  \<^verbatim>\<open>np.sum(AR)\<close> returns a numpy float64 (for the empty list \<open>0.0\<close>). On fewer than
  eight entries numpy adds them one after another from the left, starting at zero; on
  longer lists it groups the additions, which changes the result only where \<open>rnd\<close>
  rounds. Dividing a float by a numpy float64 that is zero raises nothing: numpy warns
  and returns an infinity or a NaN.
\<close>

datatype float64 = Finite real | NonFinite

definition np_sum :: "(real \<Rightarrow> real) \<Rightarrow> real list \<Rightarrow> real" where
  "np_sum rnd xs = foldl (\<lambda>s a. rnd (s + a)) 0 xs"

definition q_cell :: "(real \<Rightarrow> real) \<Rightarrow> real \<Rightarrow> real \<Rightarrow> real list \<Rightarrow> float64" where
  "q_cell rnd T1 T4 AR =
     (let s = np_sum rnd AR
      in if s = 0 then NonFinite else Finite (rnd (rnd (T1 - T4) / s)))"

subsection \<open>Cell 4: interface temperatures and positions\<close>

text \<open>
  \<^verbatim>\<open>T2 = -q*AR[0] + T1\<close> and \<^verbatim>\<open>T3 = q*AR[2] + T4\<close>. An infinity or a NaN in \<open>q\<close>
  stays one through the product with a finite float and the sum with a finite float.
\<close>

definition T2_expr :: "(real \<Rightarrow> real) \<Rightarrow> float64 \<Rightarrow> real list \<Rightarrow> real \<Rightarrow> py_error + float64" where
  "T2_expr rnd q AR T1 =
     (case getitem AR 0 of
        Inl e \<Rightarrow> Inl e
      | Inr a \<Rightarrow>
          Inr (case q of
                 NonFinite \<Rightarrow> NonFinite
               | Finite v \<Rightarrow> Finite (rnd (rnd (- v * a) + T1))))"

definition T3_expr :: "(real \<Rightarrow> real) \<Rightarrow> float64 \<Rightarrow> real list \<Rightarrow> real \<Rightarrow> py_error + float64" where
  "T3_expr rnd q AR T4 =
     (case getitem AR 2 of
        Inl e \<Rightarrow> Inl e
      | Inr a \<Rightarrow>
          Inr (case q of
                 NonFinite \<Rightarrow> NonFinite
               | Finite v \<Rightarrow> Finite (rnd (rnd (v * a) + T4))))"

text \<open>\<^verbatim>\<open>x = [0, L[0], L[0]+L[1], L[0]+L[1]+L[2]]\<close>, read from left to right.\<close>

definition x_expr :: "(real \<Rightarrow> real) \<Rightarrow> real list \<Rightarrow> py_error + real list" where
  "x_expr rnd L =
     (case getitem L 0 of
        Inl e \<Rightarrow> Inl e
      | Inr l0 \<Rightarrow>
          (case getitem L 1 of
             Inl e \<Rightarrow> Inl e
           | Inr l1 \<Rightarrow>
               (case getitem L 2 of
                  Inl e \<Rightarrow> Inl e
                | Inr l2 \<Rightarrow> Inr [0, l0, rnd (l0 + l1), rnd (rnd (l0 + l1) + l2)])))"

text \<open>The module-level variables the cells leave behind.\<close>

record variables =
  v_AR :: "real list"
  v_q :: float64
  v_T2 :: float64
  v_T3 :: float64
  v_T :: "float64 list"
  v_x :: "real list"

definition notebook :: "(real \<Rightarrow> real) \<Rightarrow> real \<Rightarrow> real \<Rightarrow> real list \<Rightarrow> real list
    \<Rightarrow> py_error + variables" where
  "notebook rnd T1 T4 k L =
     (case AR_cell rnd k L of
        Inl e \<Rightarrow> Inl e
      | Inr AR \<Rightarrow>
          (let q = q_cell rnd T1 T4 AR
           in case T2_expr rnd q AR T1 of
                Inl e \<Rightarrow> Inl e
              | Inr T2 \<Rightarrow>
                  (case T3_expr rnd q AR T4 of
                     Inl e \<Rightarrow> Inl e
                   | Inr T3 \<Rightarrow>
                       (case x_expr rnd L of
                          Inl e \<Rightarrow> Inl e
                        | Inr x \<Rightarrow>
                            Inr \<lparr>v_AR = AR, v_q = q, v_T2 = T2, v_T3 = T3,
                                 v_T = [Finite T1, T2, T3, Finite T4], v_x = x\<rparr>))))"

section \<open>Properties of the cells\<close>

subsection \<open>The loop of cell 2\<close>

text \<open>
  While every index read is inside \<open>L\<close> and meets a non-zero conductivity, the loop
  appends the rounded quotient; a run that ends normally has met only such indices.
\<close>

lemma AR_loop_append:
  assumes "\<forall>i\<in>set pre. i < length L \<and> i < length k \<and> k ! i \<noteq> 0"
  shows "AR_loop rnd k L (pre @ rest) acc =
         AR_loop rnd k L rest (acc @ map (\<lambda>i. rnd (L ! i / k ! i)) pre)"
  using assms
  by (induction pre arbitrary: acc) (simp_all add: getitem_def truediv_def)

lemma AR_loop_Inr:
  assumes "AR_loop rnd k L js acc = Inr r"
  shows "\<forall>i\<in>set js. i < length L \<and> i < length k \<and> k ! i \<noteq> 0"
  using assms
  by (induction js arbitrary: acc)
     (auto simp: getitem_def truediv_def split: if_splits sum.splits)

lemma AR_cell_value:
  assumes "length k \<le> length L" and "0 \<notin> set k"
  shows "AR_cell rnd k L = Inr (map (\<lambda>i. rnd (L ! i / k ! i)) [0 ..< length k])"
proof -
  have "\<forall>i\<in>set [0 ..< length k]. i < length L \<and> i < length k \<and> k ! i \<noteq> 0"
    using assms by (auto simp: in_set_conv_nth)
  from AR_loop_append [OF this, of rnd "[]" "[]"] show ?thesis
    by (simp add: AR_cell_def)
qed

lemma AR_cell_Inr:
  assumes "AR_cell rnd k L = Inr r"
  shows "length k \<le> length L \<and> 0 \<notin> set k"
proof -
  have *: "\<forall>i\<in>set [0 ..< length k]. i < length L \<and> i < length k \<and> k ! i \<noteq> 0"
    using assms AR_loop_Inr unfolding AR_cell_def by blast
  have "length k \<le> length L"
  proof (cases k)
    case Nil then show ?thesis by simp
  next
    case (Cons a as)
    then have "length k - 1 < length k" by simp
    with * have "length k - 1 < length L" by simp
    then show ?thesis by simp
  qed
  moreover have "0 \<notin> set k" using * by (auto simp: in_set_conv_nth)
  ultimately show ?thesis by simp
qed

text \<open>The first index that is outside \<open>L\<close> or meets a zero conductivity decides the exception.\<close>

lemma AR_cell_first_bad:
  assumes "i < length k"
    and "\<forall>j<i. j < length L \<and> k ! j \<noteq> 0"
  shows "AR_cell rnd k L =
         (if length L \<le> i then Inl IndexError
          else if k ! i = 0 then Inl ZeroDivisionError
          else AR_loop rnd k L [Suc i ..< length k]
                 (map (\<lambda>i. rnd (L ! i / k ! i)) [0 ..< Suc i]))"
proof -
  have split: "[0 ..< length k] = [0 ..< i] @ i # [Suc i ..< length k]"
    using assms(1) by (metis upt_conv_Cons upt_add_eq_append le0 le_add_diff_inverse less_imp_le_nat)
  have pre: "\<forall>j\<in>set [0 ..< i]. j < length L \<and> j < length k \<and> k ! j \<noteq> 0"
    using assms by auto
  show ?thesis
    unfolding AR_cell_def split AR_loop_append [OF pre]
    using assms(1) by (simp add: getitem_def truediv_def)
qed

lemma AR_cell_short:
  assumes "length L < length k" and "0 \<notin> set (take (length L) k)"
  shows "AR_cell rnd k L = Inl IndexError"
proof -
  have "\<forall>j<length L. j < length L \<and> k ! j \<noteq> 0"
  proof (intro allI impI conjI)
    fix j assume j: "j < length L"
    then have "take (length L) k ! j \<in> set (take (length L) k)"
      using assms(1) by (intro nth_mem) simp
    then show "k ! j \<noteq> 0" using assms(2) j by auto
  qed simp
  from AR_cell_first_bad [OF assms(1) this] show ?thesis by simp
qed

lemma AR_cell_zero:
  assumes "length k \<le> length L" and "0 \<in> set k"
  shows "AR_cell rnd k L = Inl ZeroDivisionError"
proof -
  define i where "i = (LEAST i. i < length k \<and> k ! i = 0)"
  from assms(2) obtain i0 where "i0 < length k \<and> k ! i0 = 0"
    by (auto simp: in_set_conv_nth)
  then have i: "i < length k \<and> k ! i = 0"
    unfolding i_def by (rule LeastI)
  have least: "\<not> (j < length k \<and> k ! j = 0)" if "j < i" for j
    using that unfolding i_def by (rule not_less_Least)
  have "\<forall>j<i. j < length L \<and> k ! j \<noteq> 0"
    using i least assms(1) by (metis less_le_trans less_trans)
  from AR_cell_first_bad [OF conjunct1 [OF i] this] show ?thesis
    using i assms(1) by simp
qed

text \<open>The loop reads \<open>L\<close> only at the indices of \<open>k\<close>.\<close>

lemma AR_loop_cong:
  assumes "\<forall>i\<in>set js. getitem L i = getitem L' i"
  shows "AR_loop rnd k L js acc = AR_loop rnd k L' js acc"
  using assms
  by (induction js arbitrary: acc) (simp_all split: sum.splits)

lemma AR_cell_take:
  assumes "length k \<le> length L"
  shows "AR_cell rnd k L = AR_cell rnd k (take (length k) L)"
proof -
  have "\<forall>i\<in>set [0 ..< length k]. getitem L i = getitem (take (length k) L) i"
    using assms by (simp add: getitem_def)
  then show ?thesis
    unfolding AR_cell_def by (rule AR_loop_cong)
qed

subsection \<open>Exact arithmetic\<close>







subsection \<open>The whole run\<close>

lemma notebook_value:
  assumes "3 \<le> length k" and "length k \<le> length L" and "0 \<notin> set k"
  shows "notebook rnd T1 T4 k L =
         (let AR = map (\<lambda>i. rnd (L ! i / k ! i)) [0 ..< length k];
              q = q_cell rnd T1 T4 AR;
              T2 = (case q of NonFinite \<Rightarrow> NonFinite
                    | Finite v \<Rightarrow> Finite (rnd (rnd (- v * AR ! 0) + T1)));
              T3 = (case q of NonFinite \<Rightarrow> NonFinite
                    | Finite v \<Rightarrow> Finite (rnd (rnd (v * AR ! 2) + T4)))
          in Inr \<lparr>v_AR = AR, v_q = q, v_T2 = T2, v_T3 = T3,
                  v_T = [Finite T1, T2, T3, Finite T4],
                  v_x = [0, L ! 0, rnd (L ! 0 + L ! 1), rnd (rnd (L ! 0 + L ! 1) + L ! 2)]\<rparr>)"
  using assms
  by (auto simp: notebook_def AR_cell_value T2_expr_def T3_expr_def x_expr_def getitem_def
        Let_def numeral_2_eq_2 split: float64.splits)

lemma notebook_Inr:
  assumes "notebook rnd T1 T4 k L = Inr r"
  shows "3 \<le> length k \<and> length k \<le> length L \<and> 0 \<notin> set k"
proof -
  from assms obtain AR where AR: "AR_cell rnd k L = Inr AR"
    by (auto simp: notebook_def split: sum.splits)
  then have ok: "length k \<le> length L \<and> 0 \<notin> set k"
    by (rule AR_cell_Inr)
  with AR have "length AR = length k"
    by (auto simp: AR_cell_value)
  moreover from assms AR have "2 < length AR"
    by (auto simp: notebook_def T3_expr_def getitem_def Let_def split: sum.splits if_splits)
  ultimately show ?thesis using ok by simp
qed


lemma upt3: "[0 ..< 3] = [0, 1, 2]"
  by (simp add: upt_rec numeral_3_eq_3)

lemma notebook3:
  assumes "k0 \<noteq> 0" "k1 \<noteq> 0" "k2 \<noteq> 0"
  shows "notebook exact T1 T4 [k0, k1, k2] [l0, l1, l2] =
     (let AR = [l0 / k0, l1 / k1, l2 / k2];
          q = q_cell exact T1 T4 AR;
              T2 = (case q of NonFinite \<Rightarrow> NonFinite
                    | Finite v \<Rightarrow> Finite (- v * (l0 / k0) + T1));
              T3 = (case q of NonFinite \<Rightarrow> NonFinite
                    | Finite v \<Rightarrow> Finite (v * (l2 / k2) + T4))
          in Inr \<lparr>v_AR = AR, v_q = q, v_T2 = T2, v_T3 = T3,
                  v_T = [Finite T1, T2, T3, Finite T4],
                  v_x = [0, l0, l0 + l1, l0 + l1 + l2]\<rparr>)"
  using assms by (auto simp: notebook_value upt3 exact_def Let_def split: float64.splits)

text \<open>
  For three layers and exact arithmetic, one forward step from \<open>T2\<close> over the middle layer
  arrives at the \<open>T3\<close> that the notebook computes backwards from \<open>T4\<close>, and one backward
  step from \<open>T3\<close> arrives at \<open>T2\<close>.
\<close>

lemma forward_backward_exact:
  assumes "notebook exact T1 T4 [k0, k1, k2] [l0, l1, l2] = Inr r"
    and "v_q r = Finite q" and "v_T2 r = Finite t2" and "v_T3 r = Finite t3"
  shows "t2 - q * (l1 / k1) = t3 \<and> t3 + q * (l1 / k1) = t2"
proof -
  have nz: "k0 \<noteq> 0" "k1 \<noteq> 0" "k2 \<noteq> 0"
    using notebook_Inr [OF assms(1)] by auto
  define R where "R = l0 / k0 + l1 / k1 + l2 / k2"
  have q: "q_cell exact T1 T4 [l0 / k0, l1 / k1, l2 / k2] = Finite q"
    and t2: "t2 = - q * (l0 / k0) + T1" and t3: "t3 = q * (l2 / k2) + T4"
    using assms nz by (auto simp: notebook3 Let_def)
  from q have "R \<noteq> 0" and "q = (T1 - T4) / R"
    by (auto simp: q_cell_def np_sum_def exact_def R_def Let_def split: if_splits)
  then have "q * R = T1 - T4" by simp
  then show ?thesis
    by (simp add: t2 t3 R_def algebra_simps)
qed

text \<open>
  The stored output of cell 2 prints \<^verbatim>\<open>[0.4285714285714285, 0.14285714285714288,
  0.4285714285714285]\<close>, the shortest decimals that denote the computed doubles. The
  doubles nearest to these decimals are the ones the model computes for the worked
  example with binary64 rounding.
\<close>

lemma stored_output_of_cell_2:
  "map binary64 [4285714285714285 / 10 ^ 16, 14285714285714288 / 10 ^ 17,
       4285714285714285 / 10 ^ 16] =
     [3860228252031853 / 2 ^ 53, 5146971002709139 / 2 ^ 55, 3860228252031853 / 2 ^ 53]"
  by code_simp

section \<open>The claims\<close>

text \<open>
  C1. The worked example: \<open>T1 = 150\<close>, \<open>T4 = 10\<close>, \<open>k = [0.07, 0.7, 0.07]\<close>,
  \<open>L = [0.03, 0.1, 0.03]\<close>. With binary64 rounding (the literals are the nearest doubles)
  the run ends with the area-resistances \<open>0.4285714285714285\<close>, \<open>0.14285714285714288\<close>,
  \<open>0.4285714285714285\<close>, whose float sum is \<open>1 - 1 / 2 ^ 53\<close>, the flux
  \<open>140 + 1 / 2 ^ 45\<close> (cell 3 prints \<open>140.0\<close>: numpy before 1.14 prints a float64
  with 12 significant digits), and \<open>T2 = 90\<close>, \<open>T3 = 70\<close> exactly. With exact arithmetic it ends
  with \<open>3/7\<close>, \<open>1/7\<close>, \<open>3/7\<close>, sum \<open>1\<close>, \<open>q = 140\<close>, \<open>T2 = 90\<close>, \<open>T3 = 70\<close>. Either
  way the resistances are within \<open>1 / 10 ^ 5\<close> of \<open>0.42857\<close>, \<open>0.14286\<close>, \<open>0.42857\<close>,
  and the sum and the flux within \<open>1 / 10 ^ 9\<close> of \<open>1\<close> and \<open>140\<close>.
\<close>

theorem worked_example:
  "notebook binary64 150 10 (map binary64 [7/100, 7/10, 7/100])
       (map binary64 [3/100, 1/10, 3/100]) =
     Inr \<lparr>v_AR = [3860228252031853 / 2 ^ 53, 5146971002709139 / 2 ^ 55,
                  3860228252031853 / 2 ^ 53],
          v_q = Finite (140 + 1 / 2 ^ 45), v_T2 = Finite 90, v_T3 = Finite 70,
          v_T = [Finite 150, Finite 90, Finite 70, Finite 10],
          v_x = [0, 1080863910568919 / 2 ^ 55, 1170935903116329 / 2 ^ 53,
                 5764607523034235 / 2 ^ 55]\<rparr> \<and>
   np_sum binary64 [3860228252031853 / 2 ^ 53, 5146971002709139 / 2 ^ 55,
       3860228252031853 / 2 ^ 53] = 1 - 1 / 2 ^ 53 \<and>
   \<bar>3860228252031853 / 2 ^ 53 - 42857 / 10 ^ 5\<bar> < (1 / 10 ^ 5 :: real) \<and>
   \<bar>5146971002709139 / 2 ^ 55 - 14286 / 10 ^ 5\<bar> < (1 / 10 ^ 5 :: real) \<and>
   \<bar>(1 - 1 / 2 ^ 53) - 1\<bar> < (1 / 10 ^ 9 :: real) \<and>
   \<bar>(140 + 1 / 2 ^ 45) - 140\<bar> < (1 / 10 ^ 9 :: real) \<and>
   notebook exact 150 10 [7/100, 7/10, 7/100] [3/100, 1/10, 3/100] =
     Inr \<lparr>v_AR = [3/7, 1/7, 3/7], v_q = Finite 140, v_T2 = Finite 90, v_T3 = Finite 70,
          v_T = [Finite 150, Finite 90, Finite 70, Finite 10],
          v_x = [0, 3/100, 13/100, 4/25]\<rparr> \<and>
   np_sum exact [3/7, 1/7, 3/7] = 1 \<and>
   \<bar>3/7 - 42857 / 10 ^ 5\<bar> < (1 / 10 ^ 5 :: real) \<and>
   \<bar>1/7 - 14286 / 10 ^ 5\<bar> < (1 / 10 ^ 5 :: real)"
proof -
  have ieee: "notebook binary64 150 10 (map binary64 [7/100, 7/10, 7/100])
       (map binary64 [3/100, 1/10, 3/100]) =
     Inr \<lparr>v_AR = [3860228252031853 / 2 ^ 53, 5146971002709139 / 2 ^ 55,
                  3860228252031853 / 2 ^ 53],
          v_q = Finite (140 + 1 / 2 ^ 45), v_T2 = Finite 90, v_T3 = Finite 70,
          v_T = [Finite 150, Finite 90, Finite 70, Finite 10],
          v_x = [0, 1080863910568919 / 2 ^ 55, 1170935903116329 / 2 ^ 53,
                 5764607523034235 / 2 ^ 55]\<rparr>"
    by code_simp
  have total: "np_sum binary64 [3860228252031853 / 2 ^ 53, 5146971002709139 / 2 ^ 55,
       3860228252031853 / 2 ^ 53] = 1 - 1 / 2 ^ 53"
    by code_simp
  have reals: "notebook exact 150 10 [7/100, 7/10, 7/100] [3/100, 1/10, 3/100] =
     Inr \<lparr>v_AR = [3/7, 1/7, 3/7], v_q = Finite 140, v_T2 = Finite 90, v_T3 = Finite 70,
          v_T = [Finite 150, Finite 90, Finite 70, Finite 10],
          v_x = [0, 3/100, 13/100, 4/25]\<rparr>"
    by (simp add: notebook3 q_cell_def np_sum_def exact_def Let_def)
  have sum: "np_sum exact [3/7, 1/7, 3/7] = 1"
    by (simp add: np_sum_def exact_def)
  show ?thesis
    unfolding ieee total reals sum by simp
qed











text \<open>
  C7, as amended. The notebook validates nothing and raises only Python's own
  exceptions, under any rounding. The run ends without an exception exactly when there
  are at least three conductivities, none of them zero, and at least as many thicknesses
  as conductivities; so a negative conductivity, a longer thickness list and a total
  resistance that is not positive raise nothing. A zero conductivity among at least as
  many thicknesses raises ZeroDivisionError. Fewer than three layers (the empty list
  among them) raise IndexError, and so does a thickness list shorter than a list of
  non-zero conductivities.
\<close>

theorem notebook_raises:
  "((\<exists>r. notebook rnd T1 T4 k L = Inr r) \<longleftrightarrow>
      3 \<le> length k \<and> length k \<le> length L \<and> 0 \<notin> set k) \<and>
   (length k \<le> length L \<and> 0 \<in> set k \<longrightarrow>
      notebook rnd T1 T4 k L = Inl ZeroDivisionError) \<and>
   (length k < 3 \<and> length k \<le> length L \<and> 0 \<notin> set k \<longrightarrow>
      notebook rnd T1 T4 k L = Inl IndexError) \<and>
   (length L < length k \<and> 0 \<notin> set k \<longrightarrow>
      notebook rnd T1 T4 k L = Inl IndexError)"
proof (intro conjI impI)
  show "(\<exists>r. notebook rnd T1 T4 k L = Inr r) \<longleftrightarrow>
      3 \<le> length k \<and> length k \<le> length L \<and> 0 \<notin> set k"
    using notebook_Inr [of rnd T1 T4 k L] notebook_value [of k L rnd T1 T4]
    by (auto simp: Let_def)
next
  assume "length k \<le> length L \<and> 0 \<in> set k"
  then show "notebook rnd T1 T4 k L = Inl ZeroDivisionError"
    by (simp add: notebook_def AR_cell_zero)
next
  assume "length k < 3 \<and> length k \<le> length L \<and> 0 \<notin> set k"
  then show "notebook rnd T1 T4 k L = Inl IndexError"
    by (auto simp: notebook_def AR_cell_value T2_expr_def T3_expr_def getitem_def Let_def
        split: sum.splits)
next
  assume "length L < length k \<and> 0 \<notin> set k"
  then have "length L < length k" and "0 \<notin> set (take (length L) k)"
    by (auto dest: in_set_takeD)
  then show "notebook rnd T1 T4 k L = Inl IndexError"
    by (simp add: notebook_def AR_cell_short)
qed

theorem notebook_raises_witness:
  "(\<exists>r. notebook exact 150 10 [7/100, 7/10, 7/100] [3/100, 1/10, 3/100] = Inr r) \<and>
   3 \<le> length [7/100, 7/10, 7/100 :: real] \<and>
   length [7/100, 7/10, 7/100 :: real] \<le> length [3/100, 1/10, 3/100 :: real] \<and>
   0 \<notin> set [7/100, 7/10, 7/100 :: real] \<and>
   length [0, 7/10, 7/100 :: real] \<le> length [3/100, 1/10, 3/100 :: real] \<and>
   0 \<in> set [0, 7/10, 7/100 :: real] \<and>
   notebook exact 150 10 [0, 7/10, 7/100] [3/100, 1/10, 3/100] = Inl ZeroDivisionError \<and>
   length ([] :: real list) < 3 \<and> length ([] :: real list) \<le> length ([] :: real list) \<and>
   0 \<notin> set ([] :: real list) \<and>
   notebook exact 150 10 [] [] = Inl IndexError \<and>
   length [3/100, 1/10 :: real] < length [7/100, 7/10, 7/100 :: real] \<and>
   notebook exact 150 10 [7/100, 7/10, 7/100] [3/100, 1/10] = Inl IndexError"
  using notebook_raises [of exact 150 10 "[7/100, 7/10, 7/100]" "[3/100, 1/10, 3/100]"]
    notebook_raises [of exact 150 10 "[0, 7/10, 7/100]" "[3/100, 1/10, 3/100]"]
    notebook_raises [of exact 150 10 "[]" "[]"]
    notebook_raises [of exact 150 10 "[7/100, 7/10, 7/100]" "[3/100, 1/10]"]
  by simp

text \<open>
  A negative conductivity passes through cell 2 and the run ends normally, with a
  negative area-resistance in \<open>AR\<close>.
\<close>

theorem negative_conductivity_counterexample:
  "notebook exact 150 10 [- (7/100), 7/10, 7/100] [3/100, 1/10, 3/100] =
     Inr \<lparr>v_AR = [- (3/7), 1/7, 3/7], v_q = Finite 980, v_T2 = Finite 570,
          v_T3 = Finite 430, v_T = [Finite 150, Finite 570, Finite 430, Finite 10],
          v_x = [0, 3/100, 13/100, 4/25]\<rparr>"
  by (simp add: notebook3 q_cell_def np_sum_def exact_def Let_def)



text \<open>
  C9, as amended. The loop of cell 2 runs over the indices of \<open>k\<close> only, under any
  rounding. When \<open>L\<close> is longer than \<open>k\<close> the extra thicknesses are ignored: the outcome
  is that for \<open>L\<close> cut to the length of \<open>k\<close>, and it is no exception when no conductivity
  is zero. When \<open>L\<close> is shorter than \<open>k\<close> and none of the first \<open>len(L)\<close> conductivities
  is zero, the loop raises IndexError.
\<close>

theorem AR_loop_over_indices_of_k:
  "(length k < length L \<longrightarrow> AR_cell rnd k L = AR_cell rnd k (take (length k) L)) \<and>
   (length k < length L \<and> 0 \<notin> set k \<longrightarrow>
      AR_cell rnd k L = Inr (map (\<lambda>i. rnd (L ! i / k ! i)) [0 ..< length k])) \<and>
   (length L < length k \<and> 0 \<notin> set (take (length L) k) \<longrightarrow>
      AR_cell rnd k L = Inl IndexError)"
  by (simp add: AR_cell_take [symmetric] AR_cell_value AR_cell_short)

theorem AR_loop_over_indices_of_k_witness:
  "length [1, 2 :: real] < length [4, 6, 5 :: real] \<and> 0 \<notin> set [1, 2 :: real] \<and>
   AR_cell exact [1, 2] [4, 6, 5] = AR_cell exact [1, 2] (take (length [1, 2 :: real]) [4, 6, 5]) \<and>
   AR_cell exact [1, 2] [4, 6, 5] =
     Inr (map (\<lambda>i. exact ([4, 6, 5] ! i / [1, 2] ! i)) [0 ..< length [1, 2 :: real]]) \<and>
   length [4 :: real] < length [1, 2 :: real] \<and> 0 \<notin> set (take (length [4 :: real]) [1, 2 :: real]) \<and>
   AR_cell exact [1, 2] [4] = Inl IndexError"
  using AR_loop_over_indices_of_k [of "[1, 2]" "[4, 6, 5]" exact]
    AR_loop_over_indices_of_k [of "[1, 2]" "[4]" exact]
  by auto

text \<open>
  With \<open>L\<close> shorter than \<open>k\<close>, a zero conductivity at an index that \<open>L\<close> still has is met
  first: the loop raises ZeroDivisionError, not IndexError.
\<close>

theorem zero_conductivity_first_counterexample:
  "AR_cell exact [0, 1] [1] = Inl ZeroDivisionError"
  by (simp add: AR_cell_def getitem_def truediv_def upt_rec)



end
